theory Spec2Isabelle
  imports Main "HOL-Library.Char_ord" "HOL-Library.List_Lexorder"
begin

section \<open>The awesome\_api application\<close>

text \<open>
  The repository is one module, \<^verbatim>\<open>awesome_api/__init__.py\<close>:
  \<^verbatim>\<open>
  def create_app():
      app = Flask(__name__)

      @app.route("/")
      def hello():
          return {"message": "Welcome to Awesome API!"}

      return app
  \<close>
  Everything else a request meets is Flask and Werkzeug. The part of them that
  \<^verbatim>\<open>create_app\<close> and a request to the application exercise is embedded below, each
  definition under the name of the framework function it follows: the constructor with
  its static route, \<^verbatim>\<open>add_url_rule\<close> and \<^verbatim>\<open>route\<close>, the binding of a request
  and URL matching, \<^verbatim>\<open>dispatch_request\<close>, \<^verbatim>\<open>make_response\<close>, the JSON provider
  and \<^verbatim>\<open>wsgi_app\<close>.
\<close>

subsection \<open>Requests, responses, exceptions\<close>

text \<open>
  A request as the WSGI server hands it over: the method (\<^verbatim>\<open>REQUEST_METHOD\<close>),
  the path (\<^verbatim>\<open>PATH_INFO\<close>), the query string, the header fields in the order received
  and the body. It stands for a well-formed HTTP request: its \<^verbatim>\<open>Host\<close> names a
  host the URL adapter can bind (Werkzeug answers a host name that has no IDNA
  encoding with 400 before any routing; such a request is no input here).
\<close>

record request =
  request_method :: string
  path :: string
  query_string :: string
  request_headers :: "(string \<times> string) list"
  body :: string

text \<open>
  A response as the WSGI server receives it: status code, header list and body. The
  \<^verbatim>\<open>Allow\<close> header is kept apart as the set of methods it lists
  (\<^verbatim>\<open>response.allow\<close>): Werkzeug fills it from a Python set, whose order is not fixed.
\<close>

record response =
  status :: nat
  headers :: "(string \<times> string) list"
  allow :: "string set"
  data :: string

text \<open>
  The HTTP exceptions of Werkzeug that routing raises; \<^verbatim>\<open>WebsocketMismatch\<close> is a
  \<^verbatim>\<open>BadRequest\<close>, \<^verbatim>\<open>RequestRedirect\<close> carries the path to go to. The application registers no
  error handler, so such an exception ends the request as the framework's default error
  response; the model keeps the exception as the result (\<open>Inl\<close>) and \<open>code\<close> is
  the status of that response.
\<close>

datatype http_exception =
    NotFound
  | MethodNotAllowed "string set"
  | WebsocketMismatch
  | RequestRedirect string
  | InternalServerError


datatype py_exception = TypeError | KeyError | HTTPException http_exception

type_synonym kwargs = "(string \<times> string) list"

text \<open>What a view function may return: a dict of strings, or a response object.\<close>

datatype view_rv = Dict "(string \<times> string) list" | Resp response

subsection \<open>Strings\<close>

text \<open>
  \<^verbatim>\<open>str.upper\<close>, \<^verbatim>\<open>str.lower\<close>, \<^verbatim>\<open>str.strip\<close>, \<^verbatim>\<open>sep.join\<close> and
  \<^verbatim>\<open>str.split(sep)\<close> on the strings of a request: methods and header fields, whose
  letters are ASCII. A \<open>char\<close> stands for a code point below 256.
\<close>

definition upper_char :: "char \<Rightarrow> char" where
  "upper_char c =
     (case map_of (zip ''abcdefghijklmnopqrstuvwxyz'' ''ABCDEFGHIJKLMNOPQRSTUVWXYZ'') c of
        None \<Rightarrow> c
      | Some u \<Rightarrow> u)"

definition lower_char :: "char \<Rightarrow> char" where
  "lower_char c =
     (case map_of (zip ''ABCDEFGHIJKLMNOPQRSTUVWXYZ'' ''abcdefghijklmnopqrstuvwxyz'') c of
        None \<Rightarrow> c
      | Some l \<Rightarrow> l)"

definition upper :: "string \<Rightarrow> string" where
  "upper s = map upper_char s"

definition lower :: "string \<Rightarrow> string" where
  "lower s = map lower_char s"

definition is_space :: "char \<Rightarrow> bool" where
  "is_space c =
     (c \<in> {CHR '' '', CHR 0x09, CHR 0x0A, CHR 0x0B, CHR 0x0C, CHR 0x0D,
            CHR 0x1C, CHR 0x1D, CHR 0x1E, CHR 0x1F, CHR 0x85, CHR 0xA0})"

definition strip :: "string \<Rightarrow> string" where
  "strip s = rev (dropWhile is_space (rev (dropWhile is_space s)))"

fun join :: "string \<Rightarrow> string list \<Rightarrow> string" where
  "join sep [] = []"
| "join sep [x] = x"
| "join sep (x # y # ys) = x @ sep @ join sep (y # ys)"

fun split_on :: "char \<Rightarrow> string \<Rightarrow> string list" where
  "split_on sep [] = [[]]"
| "split_on sep (c # cs) =
     (if c = sep then [] # split_on sep cs
      else (case split_on sep cs of
              [] \<Rightarrow> [[c]]
            | w # ws \<Rightarrow> (c # w) # ws))"

text \<open>
  A header of the request as the WSGI environ has it (\<^verbatim>\<open>HTTP_CONNECTION\<close> for
  \<^verbatim>\<open>Connection\<close>): field names are matched without regard to case, the values of a
  repeated field are joined by commas, and a field that is absent reads as the empty
  string (\<^verbatim>\<open>env.get(key, "")\<close>).
\<close>

definition environ_get :: "string \<Rightarrow> request \<Rightarrow> string" where
  "environ_get name req =
     join '','' (map snd (filter (\<lambda>(k, v). lower k = lower name) (request_headers req)))"

text \<open>
  \<^verbatim>\<open>Map.bind_to_environ\<close> binds a request as a WebSocket request (scheme
  \<^verbatim>\<open>ws\<close>) when \<^verbatim>\<open>Connection\<close> lists \<^verbatim>\<open>upgrade\<close> and \<^verbatim>\<open>Upgrade\<close> is
  \<^verbatim>\<open>websocket\<close>, both read in lower case.
\<close>

definition is_websocket :: "request \<Rightarrow> bool" where
  "is_websocket req =
     (''upgrade'' \<in> set (map strip (split_on (CHR '','') (lower (environ_get ''Connection'' req)))) \<and>
      lower (environ_get ''Upgrade'' req) = ''websocket'')"

subsection \<open>The application object\<close>

text \<open>
  The view functions the application holds, as tags: the closure \<^verbatim>\<open>hello\<close> of
  \<^verbatim>\<open>create_app\<close>, and the lambda around \<^verbatim>\<open>send_static_file\<close> that the constructor
  registers.
\<close>

datatype view_func = Hello | Send_static

fun view_name :: "view_func \<Rightarrow> string" where
  "view_name Hello = ''hello''"
| "view_name Send_static = ''<lambda>''"

record url_rule =
  rule :: string
  endpoint :: string
  methods :: "string set"
  websocket :: bool
  provide_automatic_options :: bool

text \<open>
  The state of the application: its import name, \<^verbatim>\<open>url_map\<close> (the rules in the order
  they were added), \<^verbatim>\<open>view_functions\<close> (endpoint to view function), and the two
  flags that the framework writes when it serves a request: the map's \<^verbatim>\<open>_remap\<close>
  (rules were added since the map last compiled them for matching) and Flask's
  \<^verbatim>\<open>_got_first_request\<close>.
\<close>

record app =
  import_name :: string
  url_map :: "url_rule list"
  url_map_remap :: bool
  view_functions :: "(string \<times> view_func) list"
  got_first_request :: bool

text \<open>
  What the host decides, not \<^verbatim>\<open>create_app\<close>: the \<^verbatim>\<open>DEBUG\<close> setting (read from
  \<^verbatim>\<open>FLASK_DEBUG\<close>, or set by the runner), and what \<^verbatim>\<open>send_static_file\<close> finds in
  the static folder for a request and a file name.
\<close>

record env =
  debug :: bool
  send_static_file :: "request \<Rightarrow> string \<Rightarrow> http_exception + response"

subsection \<open>Registering routes\<close>

text \<open>
  \<^verbatim>\<open>Flask.add_url_rule(rule, endpoint, view_func, methods=None)\<close>: the endpoint defaults
  to the function's name, the methods to \<^verbatim>\<open>("GET",)\<close>, and they are upper-cased;
  \<^verbatim>\<open>OPTIONS\<close> is added and answered by the framework unless the caller listed it;
  \<^verbatim>\<open>werkzeug.routing.Rule\<close> adds \<^verbatim>\<open>HEAD\<close> to a rule that has \<^verbatim>\<open>GET\<close>, and
  is no WebSocket rule unless asked to be. \<^verbatim>\<open>Map.add\<close> marks the map for compiling.
\<close>

definition add_url_rule ::
  "string \<Rightarrow> string option \<Rightarrow> view_func \<Rightarrow> string set option \<Rightarrow> app \<Rightarrow> app" where
  "add_url_rule r ep view_func ms a =
     (let e = (case ep of None \<Rightarrow> view_name view_func | Some e \<Rightarrow> e);
          ms0 = upper ` (case ms of None \<Rightarrow> {''GET''} | Some m \<Rightarrow> m);
          auto_options = (''OPTIONS'' \<notin> ms0);
          ms1 = (if auto_options then insert ''OPTIONS'' ms0 else ms0);
          ms2 = (if ''GET'' \<in> ms1 then insert ''HEAD'' ms1 else ms1)
      in a\<lparr>url_map := url_map a @
              [\<lparr>rule = r, endpoint = e, methods = ms2, websocket = False,
                provide_automatic_options = auto_options\<rparr>],
            url_map_remap := True,
            view_functions := (e, view_func) # view_functions a\<rparr>)"

text \<open>\<^verbatim>\<open>@app.route(rule)\<close> with no options: \<^verbatim>\<open>add_url_rule(rule, None, f)\<close>.\<close>

definition route :: "string \<Rightarrow> view_func \<Rightarrow> app \<Rightarrow> app" where
  "route r f a = add_url_rule r None f None a"

text \<open>
  \<^verbatim>\<open>Flask(import_name)\<close> with the default \<^verbatim>\<open>static_folder="static"\<close>: the
  constructor adds the static route, whether or not the folder exists. No request has
  been served yet.
\<close>

definition Flask :: "string \<Rightarrow> app" where
  "Flask n =
     add_url_rule ''/static/<path:filename>'' (Some ''static'') Send_static None
       \<lparr>import_name = n, url_map = [], url_map_remap = True, view_functions = [],
        got_first_request = False\<rparr>"

text \<open>The factory of the repository.\<close>

definition create_app :: app where
  "create_app = route ''/'' Hello (Flask ''awesome_api'')"

subsection \<open>URL matching\<close>

text \<open>
  A rule string is static text, optionally ending in one variable
  \<^verbatim>\<open><converter:name>\<close> or \<^verbatim>\<open><name>\<close>: the two rules of this application have
  that shape. \<open>split_rule\<close> gives the static text and the variable's converter and
  name.
\<close>

definition split_rule :: "string \<Rightarrow> string \<times> (string \<times> string) option" where
  "split_rule r =
     (let pre = takeWhile (\<lambda>c. c \<noteq> CHR ''<'') r;
          var = takeWhile (\<lambda>c. c \<noteq> CHR ''>'') (drop (Suc (length pre)) r)
      in if length pre = length r then (pre, None)
         else if CHR '':'' \<in> set var
           then (pre, Some (takeWhile (\<lambda>c. c \<noteq> CHR '':'') var,
                            drop 1 (dropWhile (\<lambda>c. c \<noteq> CHR '':'') var)))
           else (pre, Some (''default'', var)))"

text \<open>
  The converters' patterns: \<^verbatim>\<open>path\<close> is \<^verbatim>\<open>[^/].*?\<close>, the default
  (\<^verbatim>\<open>string\<close>) is \<^verbatim>\<open>[^/]+\<close>.
\<close>

definition converter_accepts :: "string \<Rightarrow> string \<Rightarrow> bool" where
  "converter_accepts conv v =
     (case v of
        [] \<Rightarrow> False
      | c # _ \<Rightarrow>
          if conv = ''path'' then c \<noteq> CHR ''/''
          else if conv = ''default'' \<or> conv = ''string'' then CHR ''/'' \<notin> set v
          else False)"

text \<open>Matching one rule against a path gives the view arguments.\<close>

definition match_rule :: "string \<Rightarrow> string \<Rightarrow> kwargs option" where
  "match_rule r p =
     (case split_rule r of
        (pre, None) \<Rightarrow> if p = pre then Some [] else None
      | (pre, Some (conv, name)) \<Rightarrow>
          if take (length pre) p = pre \<and> converter_accepts conv (drop (length pre) p)
          then Some [(name, drop (length pre) p)]
          else None)"

text \<open>
  The loop of \<^verbatim>\<open>StateMachineMatcher.match\<close> over the rules that match the path: a
  rule without the method adds its methods to \<open>have_match_for\<close>; a rule with the
  method but of the other kind (WebSocket or not) sets \<open>websocket_mismatch\<close>; the
  first rule that passes both is the match.
\<close>

fun match_rules ::
  "url_rule list \<Rightarrow> string \<Rightarrow> string \<Rightarrow> bool \<Rightarrow> string set \<times> bool \<Rightarrow>
   (url_rule \<times> kwargs) option \<times> string set \<times> bool" where
  "match_rules [] m p ws (have_match_for, websocket_mismatch) =
     (None, have_match_for, websocket_mismatch)"
| "match_rules (r # rs) m p ws (have_match_for, websocket_mismatch) =
     (case match_rule (rule r) p of
        None \<Rightarrow> match_rules rs m p ws (have_match_for, websocket_mismatch)
      | Some args \<Rightarrow>
          if m \<notin> methods r
            then match_rules rs m p ws (have_match_for \<union> methods r, websocket_mismatch)
          else if websocket r = ws then (Some (r, args), have_match_for, websocket_mismatch)
          else match_rules rs m p ws (have_match_for, True))"

text \<open>
  A path that lacks only the final slash of a rule that would take the request: the
  matcher asks for the slash (\<^verbatim>\<open>SlashRequired\<close>).
\<close>

fun slash_required :: "url_rule list \<Rightarrow> string \<Rightarrow> string \<Rightarrow> bool \<Rightarrow> bool" where
  "slash_required [] m p ws = False"
| "slash_required (r # rs) m p ws =
     ((rule r = p @ ''/'' \<and> websocket r = ws \<and> m \<in> methods r) \<or> slash_required rs m p ws)"

text \<open>
  \<^verbatim>\<open>re.sub("/{2,}?", "/", path)\<close>: each pair of slashes, from the left, becomes one
  slash.
\<close>

fun merge_slashes :: "string \<Rightarrow> string" where
  "merge_slashes (a # b # cs) =
     (if a = CHR ''/'' \<and> b = CHR ''/'' then CHR ''/'' # merge_slashes cs
      else a # merge_slashes (b # cs))"
| "merge_slashes cs = cs"

text \<open>
  \<^verbatim>\<open>MapAdapter.match\<close> for the bound request. The method is upper-cased and the
  path starts with one slash. A match is returned. Without one, a missing final slash
  or slashes that merge into a path with a match give a redirect; otherwise the methods
  collected decide for \<^verbatim>\<open>MethodNotAllowed\<close>, then the mismatch for
  \<^verbatim>\<open>WebsocketMismatch\<close>, and what is left is \<^verbatim>\<open>NotFound\<close>.
\<close>

definition match_request :: "url_rule list \<Rightarrow> request \<Rightarrow> http_exception + url_rule \<times> kwargs" where
  "match_request rules req =
     (let m = upper (request_method req);
          ws = is_websocket req;
          p = (if path req = [] then []
               else CHR ''/'' # dropWhile (\<lambda>c. c = CHR ''/'') (path req))
      in case match_rules rules m p ws ({}, False) of
           (Some rv, seen) \<Rightarrow> Inr rv
         | (None, seen) \<Rightarrow>
             if slash_required rules m p ws then Inl (RequestRedirect (p @ ''/''))
             else
               (case match_rules rules m (merge_slashes p) ws seen of
                  (Some rv, seen') \<Rightarrow> Inl (RequestRedirect (merge_slashes p))
                | (None, have_match_for, websocket_mismatch) \<Rightarrow>
                    if slash_required rules m (merge_slashes p) ws
                      then Inl (RequestRedirect (merge_slashes p @ ''/''))
                    else if have_match_for \<noteq> {} then Inl (MethodNotAllowed have_match_for)
                    else if websocket_mismatch then Inl WebsocketMismatch
                    else Inl NotFound))"

text \<open>
  \<^verbatim>\<open>MapAdapter.allowed_methods\<close>: match with the method \<^verbatim>\<open>--\<close>, which no rule has,
  and read the valid methods off the exception.
\<close>

definition allowed_methods :: "url_rule list \<Rightarrow> request \<Rightarrow> string set" where
  "allowed_methods rules req =
     (case match_request rules (req\<lparr>request_method := ''--''\<rparr>) of
        Inl (MethodNotAllowed valid_methods) \<Rightarrow> valid_methods
      | _ \<Rightarrow> {})"

subsection \<open>The JSON provider\<close>

abbreviation dquote :: char where "dquote \<equiv> CHR 0x22"
abbreviation bslash :: char where "bslash \<equiv> CHR 0x5C"
abbreviation newline :: char where "newline \<equiv> CHR 0x0A"

definition hexdigit :: "nat \<Rightarrow> char" where
  "hexdigit n = ''0123456789abcdef'' ! (n mod 16)"

text \<open>
  \<^verbatim>\<open>json.dumps\<close> with \<^verbatim>\<open>ensure_ascii=True\<close>: quote and backslash are escaped,
  the control characters by name or as \<^verbatim>\<open>\u00XX\<close>, and so is every character
  outside \<^verbatim>\<open>' '..'~'\<close>. A \<open>char\<close> stands for a code point below 256.
\<close>

definition escape_char :: "char \<Rightarrow> string" where
  "escape_char c =
     (if c = dquote then [bslash, dquote]
      else if c = bslash then [bslash, bslash]
      else if c = newline then [bslash, CHR ''n'']
      else if c = CHR 0x0D then [bslash, CHR ''r'']
      else if c = CHR 0x09 then [bslash, CHR ''t'']
      else if c = CHR 0x0C then [bslash, CHR ''f'']
      else if c = CHR 0x08 then [bslash, CHR ''b'']
      else if c < CHR '' '' \<or> CHR ''~'' < c
        then [bslash, CHR ''u'', CHR ''0'', CHR ''0'',
              hexdigit (of_char c div 16), hexdigit (of_char c)]
      else [c])"

definition encode_string :: "string \<Rightarrow> string" where
  "encode_string s = dquote # concat (map escape_char s) @ [dquote]"

text \<open>
  \<^verbatim>\<open>DefaultJSONProvider.dumps\<close> of a dict of strings, keys sorted
  (\<^verbatim>\<open>sort_keys=True\<close>): with \<^verbatim>\<open>indent=2\<close> when the application is in debug mode,
  with the compact separators \<^verbatim>\<open>(",", ":")\<close> otherwise.
\<close>

definition dumps :: "bool \<Rightarrow> (string \<times> string) list \<Rightarrow> string" where
  "dumps indent obj =
     (let items = sort_key fst obj in
      if items = [] then ''{}''
      else if indent then
        ''{'' @ [newline] @ ''  '' @
        join ('','' @ [newline] @ ''  '')
          (map (\<lambda>(k, v). encode_string k @ '': '' @ encode_string v) items) @
        [newline] @ ''}''
      else
        ''{'' @
        join '','' (map (\<lambda>(k, v). encode_string k @ '':'' @ encode_string v) items) @
        ''}'')"

text \<open>\<^verbatim>\<open>str(n)\<close> of a length.\<close>

fun show_nat :: "nat \<Rightarrow> string" where
  "show_nat n =
     (if n < 10 then [hexdigit n] else show_nat (n div 10) @ [hexdigit (n mod 10)])"

text \<open>
  \<^verbatim>\<open>DefaultJSONProvider.response\<close>: the dumped object and a newline, as a response
  of mimetype \<^verbatim>\<open>application/json\<close> with the default status 200. Setting the body sets
  \<^verbatim>\<open>Content-Length\<close>.
\<close>

definition json_response :: "env \<Rightarrow> (string \<times> string) list \<Rightarrow> response" where
  "json_response e obj =
     (let d = dumps (debug e) obj @ [newline] in
      \<lparr>status = 200,
       headers = [(''Content-Type'', ''application/json''),
                  (''Content-Length'', show_nat (length d))],
       allow = {},
       data = d\<rparr>)"









text \<open>
  \<^verbatim>\<open>Response.mimetype\<close>, \<^verbatim>\<open>Response.is_json\<close> and \<^verbatim>\<open>Response.get_json\<close>
  (the \<^verbatim>\<open>response.json\<close> of the test): the body is parsed only when the mimetype says
  JSON. Response headers are looked up without regard to case.
\<close>

definition header_get :: "string \<Rightarrow> response \<Rightarrow> string option" where
  "header_get name r = map_of (map (\<lambda>(k, v). (lower k, v)) (headers r)) (lower name)"




subsection \<open>Views\<close>

text \<open>
  The root handler. It has no parameter, so a call with a keyword argument raises
  \<^verbatim>\<open>TypeError\<close>; it reads nothing of the request and returns a fresh dict. A view runs
  with the application in reach, so it takes the application's state and gives it back.
\<close>

definition hello :: "kwargs \<Rightarrow> app \<Rightarrow> (py_exception + view_rv) \<times> app" where
  "hello kw a =
     (if kw = [] then Inr (Dict [(''message'', ''Welcome to Awesome API!'')])
      else Inl TypeError, a)"

text \<open>
  The static view, \<^verbatim>\<open>lambda **kw: self_ref().send_static_file(**kw)\<close>, where
  \<^verbatim>\<open>send_static_file(filename)\<close> has the one parameter.
\<close>

definition static_view ::
  "env \<Rightarrow> request \<Rightarrow> kwargs \<Rightarrow> app \<Rightarrow> (py_exception + view_rv) \<times> app" where
  "static_view e req kw a =
     (case kw of
        [(k, f)] \<Rightarrow>
          if k = ''filename'' then
            (case send_static_file e req f of
               Inl x \<Rightarrow> Inl (HTTPException x)
             | Inr r \<Rightarrow> Inr (Resp r))
          else Inl TypeError
      | _ \<Rightarrow> Inl TypeError, a)"

fun call_view ::
  "env \<Rightarrow> request \<Rightarrow> view_func \<Rightarrow> kwargs \<Rightarrow> app \<Rightarrow> (py_exception + view_rv) \<times> app" where
  "call_view e req Hello kw a = hello kw a"
| "call_view e req Send_static kw a = static_view e req kw a"

subsection \<open>Dispatch\<close>

text \<open>
  \<^verbatim>\<open>Flask.make_default_options_response\<close>: an empty response whose \<^verbatim>\<open>Allow\<close>
  lists the methods allowed on the path.
\<close>

definition make_default_options_response :: "app \<Rightarrow> request \<Rightarrow> response" where
  "make_default_options_response a req =
     \<lparr>status = 200,
      headers = [(''Content-Type'', ''text/html; charset=utf-8'')],
      allow = allowed_methods (url_map a) req,
      data = []\<rparr>"

text \<open>
  \<^verbatim>\<open>Flask.dispatch_request\<close>: a routing exception is raised; an \<^verbatim>\<open>OPTIONS\<close>
  request (\<^verbatim>\<open>request.method\<close> is the method in upper case) on a rule with automatic
  options is answered by the framework; otherwise the view function of the rule's
  endpoint is called with the view arguments.
\<close>

definition dispatch_request ::
  "env \<Rightarrow> app \<Rightarrow> request \<Rightarrow> (py_exception + view_rv) \<times> app" where
  "dispatch_request e a req =
     (case match_request (url_map a) req of
        Inl x \<Rightarrow> (Inl (HTTPException x), a)
      | Inr (r, args) \<Rightarrow>
          if provide_automatic_options r \<and> upper (request_method req) = ''OPTIONS''
          then (Inr (Resp (make_default_options_response a req)), a)
          else (case map_of (view_functions a) (endpoint r) of
                  None \<Rightarrow> (Inl KeyError, a)
                | Some f \<Rightarrow> call_view e req f args a))"

text \<open>\<^verbatim>\<open>Flask.make_response\<close>: a dict goes through the JSON provider.\<close>

fun make_response :: "env \<Rightarrow> view_rv \<Rightarrow> response" where
  "make_response e (Dict d) = json_response e d"
| "make_response e (Resp r) = r"

text \<open>
  \<^verbatim>\<open>Flask.full_dispatch_request\<close>: it first notes on the application that a request
  has come (\<^verbatim>\<open>self._got_first_request = True\<close>), then dispatches; an HTTP exception
  becomes the default error response, any other exception the internal server error.
\<close>

definition full_dispatch_request ::
  "env \<Rightarrow> app \<Rightarrow> request \<Rightarrow> (http_exception + response) \<times> app" where
  "full_dispatch_request e a req =
     (case dispatch_request e (a\<lparr>got_first_request := True\<rparr>) req of
        (Inl (HTTPException x), a') \<Rightarrow> (Inl x, a')
      | (Inl _, a') \<Rightarrow> (Inl InternalServerError, a')
      | (Inr rv, a') \<Rightarrow> (Inr (make_response e rv), a'))"

text \<open>
  \<^verbatim>\<open>Response.get_wsgi_headers\<close>: a response that goes out without a
  \<^verbatim>\<open>Content-Length\<close>, and whose status allows a body, gets the length of its body.
\<close>

definition get_wsgi_headers :: "response \<Rightarrow> response" where
  "get_wsgi_headers r =
     (if header_get ''Content-Length'' r = None \<and> status r \<noteq> 204 \<and> status r \<noteq> 304 \<and>
         (status r < 100 \<or> 200 \<le> status r)
      then r\<lparr>headers := headers r @ [(''Content-Length'', show_nat (length (data r)))]\<rparr>
      else r)"

text \<open>
  \<^verbatim>\<open>Response.get_app_iter\<close>: no body is sent when the method is \<^verbatim>\<open>HEAD\<close> (as
  written in the environ), or for the statuses that have none.
\<close>

definition get_app_iter :: "request \<Rightarrow> response \<Rightarrow> response" where
  "get_app_iter req r =
     (if request_method req = ''HEAD'' \<or> (100 \<le> status r \<and> status r < 200) \<or>
         status r = 204 \<or> status r = 304
      then r\<lparr>data := []\<rparr>
      else r)"

text \<open>
  \<^verbatim>\<open>Flask.wsgi_app\<close>: pushing the request context matches the request, for which the
  map compiles its rules (\<^verbatim>\<open>Map.update\<close>, which clears \<^verbatim>\<open>_remap\<close>); then comes
  the full dispatch, and its response as it is sent.
\<close>

definition wsgi_app ::
  "env \<Rightarrow> app \<Rightarrow> request \<Rightarrow> (http_exception + response) \<times> app" where
  "wsgi_app e a req =
     (case full_dispatch_request e (a\<lparr>url_map_remap := False\<rparr>) req of
        (Inr r, a') \<Rightarrow> (Inr (get_app_iter req (get_wsgi_headers r)), a')
      | (Inl x, a') \<Rightarrow> (Inl x, a'))"

text \<open>A sequence of requests, each served by the application the one before left.\<close>

fun serve ::
  "env \<Rightarrow> app \<Rightarrow> request list \<Rightarrow> (http_exception + response) list \<times> app" where
  "serve e a [] = ([], a)"
| "serve e a (req # reqs) =
     (case wsgi_app e a req of
        (x, a') \<Rightarrow> (case serve e a' reqs of (xs, a'') \<Rightarrow> (x # xs, a'')))"

subsection \<open>Values the properties speak about\<close>

text \<open>The two rules of the application, the payload, and inputs for the instances.\<close>

abbreviation static_rule :: url_rule where
  "static_rule \<equiv>
     \<lparr>rule = ''/static/<path:filename>'', endpoint = ''static'',
      methods = {''HEAD'', ''OPTIONS'', ''GET''}, websocket = False,
      provide_automatic_options = True\<rparr>"

abbreviation root_rule :: url_rule where
  "root_rule \<equiv>
     \<lparr>rule = ''/'', endpoint = ''hello'',
      methods = {''HEAD'', ''OPTIONS'', ''GET''}, websocket = False,
      provide_automatic_options = True\<rparr>"

abbreviation greeting :: "(string \<times> string) list" where
  "greeting \<equiv> [(''message'', ''Welcome to Awesome API!'')]"

abbreviation plain_env :: env where
  "plain_env \<equiv> \<lparr>debug = False, send_static_file = (\<lambda>req f. Inl NotFound)\<rparr>"

abbreviation debug_env :: env where
  "debug_env \<equiv> \<lparr>debug = True, send_static_file = (\<lambda>req f. Inl NotFound)\<rparr>"

abbreviation bare :: "string \<Rightarrow> string \<Rightarrow> request" where
  "bare m p \<equiv>
     \<lparr>request_method = m, path = p, query_string = [], request_headers = [], body = []\<rparr>"

abbreviation get_with_query :: request where
  "get_with_query \<equiv>
     \<lparr>request_method = ''GET'', path = ''/'', query_string = ''foo=bar'',
      request_headers = [(''Accept'', ''text/plain'')], body = ''ignored''\<rparr>"

text \<open>The application once a request has been served.\<close>

abbreviation served :: "app \<Rightarrow> app" where
  "served a \<equiv> a\<lparr>url_map_remap := False, got_first_request := True\<rparr>"



section \<open>What create\_app builds\<close>

lemma upper_methods:
  "upper ''GET'' = ''GET''" "upper ''HEAD'' = ''HEAD''" "upper ''OPTIONS'' = ''OPTIONS''"
  "upper ''POST'' = ''POST''" "upper ''--'' = ''--''"
  by (simp_all add: upper_def upper_char_def)

lemma url_map_create_app: "url_map create_app = [static_rule, root_rule]"
  by (simp add: create_app_def route_def Flask_def add_url_rule_def Let_def upper_methods)

lemma view_functions_create_app:
  "view_functions create_app = [(''hello'', Hello), (''static'', Send_static)]"
  by (simp add: create_app_def route_def Flask_def add_url_rule_def Let_def)


lemma match_rule_static_root: "match_rule ''/static/<path:filename>'' ''/'' = None"
  by (simp add: match_rule_def split_rule_def)

lemma match_rule_root: "match_rule ''/'' p = (if p = ''/'' then Some [] else None)"
  by (simp add: match_rule_def split_rule_def)

text \<open>
  On the path \<^verbatim>\<open>/\<close> the static rule is passed over, and the root rule decides: by
  the method first, then by the kind of the request.
\<close>

lemma match_rules_root:
  "match_rules [static_rule, root_rule] m ''/'' ws (have_match_for, mismatch) =
     (if m \<notin> {''HEAD'', ''OPTIONS'', ''GET''}
        then (None, have_match_for \<union> {''HEAD'', ''OPTIONS'', ''GET''}, mismatch)
      else if ws then (None, have_match_for, True)
      else (Some (root_rule, []), have_match_for, mismatch))"
  by (simp add: match_rule_static_root match_rule_root)

lemma slash_required_root: "slash_required [static_rule, root_rule] m ''/'' ws = False"
  by simp

lemma merge_slashes_root: "merge_slashes ''/'' = ''/''"
  by simp

lemma match_request_root:
  assumes "path r = ''/''"
  shows "match_request [static_rule, root_rule] r =
     (if upper (request_method r) \<notin> {''HEAD'', ''OPTIONS'', ''GET''}
        then Inl (MethodNotAllowed {''HEAD'', ''OPTIONS'', ''GET''})
      else if is_websocket r then Inl WebsocketMismatch
      else Inr (root_rule, []))"
  using assms
  by (simp add: match_request_def Let_def match_rules_root slash_required_root merge_slashes_root
      del: match_rules.simps slash_required.simps merge_slashes.simps)

lemma not_websocket_bare: "\<not> is_websocket (bare m p)"
  by (simp add: is_websocket_def environ_get_def lower_def strip_def)

lemma is_websocket_method: "is_websocket (r\<lparr>request_method := m\<rparr>) = is_websocket r"
  by (simp add: is_websocket_def environ_get_def)

text \<open>
  C4, as the code has it: \<^verbatim>\<open>create_app\<close> takes no argument, and the application
  it returns has two rules. The constructor \<^verbatim>\<open>Flask(__name__)\<close> has already added the
  static rule \<^verbatim>\<open>/static/<path:filename>\<close> when \<^verbatim>\<open>create_app\<close> adds its one
  rule, \<^verbatim>\<open>/\<close> with the endpoint \<^verbatim>\<open>hello\<close>; each rule accepts \<^verbatim>\<open>GET\<close>,
  \<^verbatim>\<open>HEAD\<close> and \<^verbatim>\<open>OPTIONS\<close>, and the two view functions are the only ones.
\<close>

theorem create_app_routes:
  "url_map (Flask ''awesome_api'') = [static_rule] \<and>
   url_map create_app = url_map (Flask ''awesome_api'') @ [root_rule] \<and>
   view_functions create_app = [(''hello'', Hello), (''static'', Send_static)]"
proof -
  have "url_map (Flask ''awesome_api'') = [static_rule]"
    by (simp add: Flask_def add_url_rule_def Let_def upper_methods)
  then show ?thesis
    by (simp add: url_map_create_app view_functions_create_app)
qed

text \<open>
  With one route only, \<^verbatim>\<open>GET /static/app.css\<close> would match nothing. It matches the
  static rule, and the rule list has two entries.
\<close>

theorem create_app_routes_counterexample:
  "length (url_map create_app) \<noteq> 1 \<and>
   match_request (url_map create_app) (bare ''GET'' ''/static/app.css'') =
     Inr (static_rule, [(''filename'', ''app.css'')])"
  by (simp add: url_map_create_app match_request_def Let_def match_rule_def split_rule_def
      converter_accepts_def upper_methods not_websocket_bare)

section \<open>GET /\<close>

lemma dispatch_get_root:
  assumes "request_method r = ''GET''" and "path r = ''/''" and "\<not> is_websocket r"
    and "url_map a = [static_rule, root_rule]"
    and "view_functions a = [(''hello'', Hello), (''static'', Send_static)]"
  shows "dispatch_request e a r = hello [] a"
  using assms by (simp add: dispatch_request_def match_request_root upper_methods)

lemma get_wsgi_headers_json: "get_wsgi_headers (json_response e obj) = json_response e obj"
  by (simp add: get_wsgi_headers_def header_get_def json_response_def Let_def lower_def
      lower_char_def)

text \<open>
  The whole answer to a \<^verbatim>\<open>GET /\<close> that is no WebSocket request, and the application
  after it; and the answer to one that is.
\<close>

lemma wsgi_get_root:
  assumes "request_method r = ''GET''" and "path r = ''/''" and "\<not> is_websocket r"
  shows "wsgi_app e create_app r = (Inr (json_response e greeting), served create_app)"
proof -
  have "dispatch_request e (served create_app) r = hello [] (served create_app)"
    using assms by (intro dispatch_get_root) (simp_all add: url_map_create_app view_functions_create_app)
  moreover have "get_app_iter r (json_response e greeting) = json_response e greeting"
    using assms by (simp add: get_app_iter_def json_response_def Let_def)
  ultimately show ?thesis
    by (simp add: wsgi_app_def full_dispatch_request_def hello_def get_wsgi_headers_json)
qed




lemma not_websocket_get_with_query: "\<not> is_websocket get_with_query"
  by (simp add: is_websocket_def environ_get_def lower_def lower_char_def strip_def)















section \<open>The application's state\<close>

lemma call_view_state: "snd (call_view e r f kw a) = a"
  by (cases f) (simp_all add: hello_def static_view_def)

lemma dispatch_request_state: "snd (dispatch_request e a r) = a"
  by (simp add: dispatch_request_def call_view_state split: sum.splits prod.splits option.splits)

text \<open>Serving a request writes the two flags and changes nothing else.\<close>

lemma full_dispatch_request_state:
  "snd (full_dispatch_request e a r) = a\<lparr>got_first_request := True\<rparr>"
proof -
  obtain x a' where d: "dispatch_request e (a\<lparr>got_first_request := True\<rparr>) r = (x, a')"
    by (cases "dispatch_request e (a\<lparr>got_first_request := True\<rparr>) r")
  with dispatch_request_state [of e "a\<lparr>got_first_request := True\<rparr>" r]
  have "a' = a\<lparr>got_first_request := True\<rparr>" by simp
  with d show ?thesis
    by (simp add: full_dispatch_request_def split: sum.splits py_exception.splits)
qed

lemma wsgi_app_state: "snd (wsgi_app e a r) = served a"
proof -
  obtain x a' where d: "full_dispatch_request e (a\<lparr>url_map_remap := False\<rparr>) r = (x, a')"
    by (cases "full_dispatch_request e (a\<lparr>url_map_remap := False\<rparr>) r")
  with full_dispatch_request_state [of e "a\<lparr>url_map_remap := False\<rparr>" r]
  have "a' = served a" by simp
  with d show ?thesis
    by (simp add: wsgi_app_def split: sum.splits)
qed


text \<open>What is answered does not depend on the flags.\<close>

lemma wsgi_app_flag: "fst (wsgi_app e (served a) r) = fst (wsgi_app e a r)"
  by (simp add: wsgi_app_def full_dispatch_request_def)

lemma serve_replicate: "fst (serve e a (replicate n r)) = replicate n (fst (wsgi_app e a r))"
proof (induction n arbitrary: a)
  case 0
  show ?case by simp
next
  case (Suc n)
  obtain x a' where w: "wsgi_app e a r = (x, a')"
    by (cases "wsgi_app e a r")
  with wsgi_app_state [of e a r] have a': "a' = served a" by simp
  obtain xs a'' where s: "serve e a' (replicate n r) = (xs, a'')"
    by (cases "serve e a' (replicate n r)")
  with Suc.IH [of a'] have "xs = replicate n (fst (wsgi_app e a' r))" by simp
  with a' have "xs = replicate n (fst (wsgi_app e a r))" by (simp add: wsgi_app_flag)
  with w s show ?case by simp
qed




section \<open>Determinism and independence of the request\<close>

text \<open>
  C5: the same request to \<^verbatim>\<open>GET /\<close>, issued \<open>n\<close> times in a row to the
  application, is answered \<open>n\<close> times as it is answered the first time: the same
  status, the same headers and the same body. For a request that the framework routes
  to the handler (one that does not ask for the WebSocket protocol), that answer is
  the greeting.
\<close>

theorem get_root_repeated:
  "request_method r = ''GET'' \<Longrightarrow> path r = ''/'' \<Longrightarrow>
   fst (serve e create_app (replicate n r)) = replicate n (fst (wsgi_app e create_app r)) \<and>
   (\<not> is_websocket r \<longrightarrow>
      fst (serve e create_app (replicate n r)) = replicate n (Inr (json_response e greeting)))"
  by (simp add: serve_replicate wsgi_get_root)

theorem get_root_repeated_witness:
  "fst (serve debug_env create_app (replicate 3 get_with_query)) =
     replicate 3 (Inr (json_response debug_env greeting))"
proof -
  have q: "request_method get_with_query = ''GET''" "path get_with_query = ''/''"
    by simp_all
  from get_root_repeated [OF q, of debug_env 3] not_websocket_get_with_query
  show ?thesis by blast
qed




section \<open>Other methods on /\<close>



text \<open>
  C8: the root handler cannot fail. A \<^verbatim>\<open>GET /\<close> that reaches it (the framework
  routes there every one that does not ask for the WebSocket protocol) calls it with
  no view argument, which is the one call for which it has no error branch: there it
  returns its dict, in any state, and the request ends with a response, not an
  exception.
\<close>

theorem hello_total:
  "request_method r = ''GET'' \<Longrightarrow> path r = ''/'' \<Longrightarrow> \<not> is_websocket r \<Longrightarrow>
   dispatch_request e create_app r = hello [] create_app \<and>
   (\<forall>a. fst (hello [] a) = Inr (Dict greeting)) \<and>
   (\<exists>resp. fst (wsgi_app e create_app r) = Inr resp)"
  by (simp add: dispatch_get_root url_map_create_app view_functions_create_app wsgi_get_root
      hello_def)

theorem hello_total_witness:
  "request_method (bare ''GET'' ''/'') = ''GET'' \<and> path (bare ''GET'' ''/'') = ''/'' \<and>
   \<not> is_websocket (bare ''GET'' ''/'') \<and>
   dispatch_request debug_env create_app (bare ''GET'' ''/'') = hello [] create_app \<and>
   fst (hello [] create_app) = Inr (Dict greeting)"
  using hello_total [of "bare ''GET'' ''/''" debug_env] by (simp add: not_websocket_bare)

lemma allowed_methods_root:
  "path r = ''/'' \<Longrightarrow>
   allowed_methods [static_rule, root_rule] r = {''HEAD'', ''OPTIONS'', ''GET''}"
  by (simp add: allowed_methods_def match_request_root upper_methods)

text \<open>
  C10: \<^verbatim>\<open>GET\<close> is not the only method served on \<^verbatim>\<open>/\<close>. The route was
  registered with no method list, so its rule also has \<^verbatim>\<open>HEAD\<close> and \<^verbatim>\<open>OPTIONS\<close>.
  A \<^verbatim>\<open>HEAD\<close> request gets the response of the \<^verbatim>\<open>GET\<close> (status 200, the same
  headers) with an empty body; an \<^verbatim>\<open>OPTIONS\<close> request gets the framework's own
  response as it is sent, status 200, listing the three methods as allowed. (The
  requests are ones the framework routes to the rule: they do not ask for the
  WebSocket protocol.)
\<close>

theorem head_options_root:
  "path h = ''/'' \<Longrightarrow> request_method h = ''HEAD'' \<Longrightarrow> \<not> is_websocket h \<Longrightarrow>
   path opt = ''/'' \<Longrightarrow> request_method opt = ''OPTIONS'' \<Longrightarrow> \<not> is_websocket opt \<Longrightarrow>
   (\<exists>g. fst (wsgi_app e create_app (h\<lparr>request_method := ''GET''\<rparr>)) = Inr g \<and>
        fst (wsgi_app e create_app h) = Inr (g\<lparr>data := []\<rparr>) \<and> status g = 200) \<and>
   fst (wsgi_app e create_app opt) =
     Inr (get_wsgi_headers (make_default_options_response create_app opt)) \<and>
   status (get_wsgi_headers (make_default_options_response create_app opt)) = 200 \<and>
   allow (get_wsgi_headers (make_default_options_response create_app opt)) =
     {''HEAD'', ''OPTIONS'', ''GET''} \<and>
   headers (get_wsgi_headers (make_default_options_response create_app opt)) =
     [(''Content-Type'', ''text/html; charset=utf-8''), (''Content-Length'', ''0'')] \<and>
   data (get_wsgi_headers (make_default_options_response create_app opt)) = []"
proof -
  assume h: "path h = ''/''" "request_method h = ''HEAD''" "\<not> is_websocket h"
    and o: "path opt = ''/''" "request_method opt = ''OPTIONS''" "\<not> is_websocket opt"
  let ?a = "served create_app"
  have hg: "wsgi_app e create_app (h\<lparr>request_method := ''GET''\<rparr>) =
        (Inr (json_response e greeting), ?a)"
    using h by (intro wsgi_get_root) (simp_all add: is_websocket_method)
  have "dispatch_request e ?a h = hello [] ?a"
    using h
    by (simp add: dispatch_request_def match_request_root url_map_create_app
        view_functions_create_app upper_methods)
  then have hh: "fst (wsgi_app e create_app h) = Inr ((json_response e greeting)\<lparr>data := []\<rparr>)"
    using h
    by (simp add: wsgi_app_def full_dispatch_request_def hello_def get_wsgi_headers_json
        get_app_iter_def)
  have mk: "make_default_options_response ?a opt = make_default_options_response create_app opt"
    by (simp add: make_default_options_response_def)
  have od: "dispatch_request e ?a opt = (Inr (Resp (make_default_options_response ?a opt)), ?a)"
    using o
    by (simp add: dispatch_request_def match_request_root url_map_create_app upper_methods)
  have sent: "get_wsgi_headers (make_default_options_response create_app opt) =
      \<lparr>status = 200,
       headers = [(''Content-Type'', ''text/html; charset=utf-8''), (''Content-Length'', ''0'')],
       allow = {''HEAD'', ''OPTIONS'', ''GET''}, data = []\<rparr>"
    using o
    by (simp add: get_wsgi_headers_def make_default_options_response_def header_get_def
        lower_def lower_char_def url_map_create_app allowed_methods_root hexdigit_def)
  have oo: "fst (wsgi_app e create_app opt) =
      Inr (get_wsgi_headers (make_default_options_response create_app opt))"
    using o od mk
    by (simp add: wsgi_app_def full_dispatch_request_def sent get_app_iter_def)
  from hg hh oo sent show ?thesis
    by (simp add: json_response_def Let_def)
qed

theorem head_options_root_witness:
  "path (bare ''HEAD'' ''/'') = ''/'' \<and> request_method (bare ''HEAD'' ''/'') = ''HEAD'' \<and>
   path (bare ''OPTIONS'' ''/'') = ''/'' \<and> request_method (bare ''OPTIONS'' ''/'') = ''OPTIONS'' \<and>
   (\<exists>g. fst (wsgi_app plain_env create_app (bare ''GET'' ''/'')) = Inr g \<and>
        fst (wsgi_app plain_env create_app (bare ''HEAD'' ''/'')) = Inr (g\<lparr>data := []\<rparr>) \<and>
        status g = 200) \<and>
   allow (get_wsgi_headers (make_default_options_response create_app (bare ''OPTIONS'' ''/''))) =
     {''HEAD'', ''OPTIONS'', ''GET''}"
  using head_options_root [of "bare ''HEAD'' ''/''" "bare ''OPTIONS'' ''/''" plain_env]
  by (simp add: not_websocket_bare)

end
